theory Spec2Isabelle
  imports Complex_Main "HOL-Library.Option_ord" "HOL-Library.Multiset"
begin

section \<open>Scene search: frames of a video, captioned, embedded and ranked\<close>

text \<open>
  The notebook \<^verbatim>\<open>scenes-tutorial.ipynb\<close> defines \<^verbatim>\<open>extract_key_frames\<close>,
  \<^verbatim>\<open>upload_image_to_s3\<close>, \<^verbatim>\<open>generate_caption\<close>, \<^verbatim>\<open>get_embedding\<close>,
  \<^verbatim>\<open>search_frames\<close> and \<^verbatim>\<open>process_frame\<close>, and a cell that annotates all frames
  with a thread pool and builds the table \<^verbatim>\<open>df_frames\<close>.

  Every function of the notebook is a sequence of calls into libraries (PySceneDetect,
  OpenCV, boto3, the OpenAI client, pandas, scikit-learn). A call whose outcome the
  notebook branches on, catches, or lets escape is modelled by that outcome: a value,
  or an exception as \<open>Inl\<close> of a sum. What the collaborators answer (the decoder, the
  object store, the captioning and embedding services) is an input of the model.
  Embedding components are real numbers; rounding of IEEE doubles is not modelled.
\<close>

subsection \<open>Exceptions and helpers\<close>

text \<open>
  \<open>KeyError\<close> and \<open>ValueError\<close> are the exceptions pandas and scikit-learn raise in the
  places below; \<open>OSError\<close> is the one of the file system (\<^verbatim>\<open>IOError\<close> is its alias,
  \<^verbatim>\<open>FileNotFoundError\<close> a subclass); \<open>Failure\<close> stands for any other subclass of
  \<^verbatim>\<open>Exception\<close> raised by a collaborator (network error, timeout, rate limit, decoder
  error), with its message.
\<close>

datatype exn = KeyError string | ValueError string | OSError string | Failure string

fun message :: "exn \<Rightarrow> string" where
  "message (KeyError k) = [CHR 0x27] @ k @ [CHR 0x27]"
| "message (ValueError m) = m"
| "message (OSError m) = m"
| "message (Failure m) = m"

text \<open>
  Calling \<open>f\<close> on each element in order and collecting the results; the first exception
  ends the traversal and is the outcome.
\<close>

fun map_raise :: "('a \<Rightarrow> exn + 'b) \<Rightarrow> 'a list \<Rightarrow> exn + 'b list" where
  "map_raise f [] = Inr []"
| "map_raise f (x # xs) =
     (case f x of
        Inl e \<Rightarrow> Inl e
      | Inr y \<Rightarrow> (case map_raise f xs of Inl e \<Rightarrow> Inl e | Inr ys \<Rightarrow> Inr (y # ys)))"

text \<open>\<^verbatim>\<open>str(n)\<close> for a natural number: its decimal digits.\<close>

definition digit_char :: "nat \<Rightarrow> char" where
  "digit_char d = ''0123456789'' ! d"

fun str_nat :: "nat \<Rightarrow> string" where
  "str_nat n = (if n < 10 then [digit_char n] else str_nat (n div 10) @ [digit_char (n mod 10)])"

declare str_nat.simps [simp del]

text \<open>
  \<^verbatim>\<open>os.path.join(a, b)\<close> and \<^verbatim>\<open>os.path.basename(p)\<close> as \<^verbatim>\<open>posixpath\<close> defines
  them: an absolute \<open>b\<close> replaces \<open>a\<close>, a separator is added unless \<open>a\<close> is empty
  or ends with one; the base name is what follows the last separator.
\<close>

definition os_path_join :: "string \<Rightarrow> string \<Rightarrow> string" where
  "os_path_join a b =
     (if b \<noteq> [] \<and> hd b = CHR ''/'' then b
      else if a = [] \<or> last a = CHR ''/'' then a @ b
      else a @ ''/'' @ b)"

definition os_path_basename :: "string \<Rightarrow> string" where
  "os_path_basename p = rev (takeWhile (\<lambda>c. c \<noteq> CHR ''/'') (rev p))"

subsection \<open>The frame table\<close>

type_synonym vector = "real list"

text \<open>The dictionary \<^verbatim>\<open>process_frame\<close> returns.\<close>

record frame_data =
  frame_filename :: string
  image_url :: string
  caption :: string
  embedding :: vector

text \<open>
  A \<^verbatim>\<open>pandas.DataFrame\<close> holding such dictionaries: the column names, and the rows in
  table order, each with its index label. \<open>similarity\<close> is the cell of the column
  \<^verbatim>\<open>'similarity'\<close>, \<open>None\<close> while the table has no such column.
\<close>

record row =
  label :: nat
  data :: frame_data
  similarity :: "real option"

record dataframe =
  columns :: "string list"
  rows :: "row list"

text \<open>
  \<^verbatim>\<open>pd.DataFrame(frame_data_list)\<close> on a list of dictionaries: the columns are the
  dictionaries' keys and the index is \<^verbatim>\<open>0 .. n-1\<close>. From the empty list there is no
  dictionary to take keys from: the table has no rows and no columns.
\<close>

definition pd_DataFrame :: "frame_data list \<Rightarrow> dataframe" where
  "pd_DataFrame frame_data_list =
     \<lparr>columns = (if frame_data_list = [] then []
                 else [''frame_filename'', ''image_url'', ''caption'', ''embedding'']),
      rows = map (\<lambda>(i, d). \<lparr>label = i, data = d, similarity = None\<rparr>)
                 (zip [0..<length frame_data_list] frame_data_list)\<rparr>"

text \<open>
  \<^verbatim>\<open>df['similarity'] = values\<close>: the column is overwritten where it exists and added
  as the last column otherwise; the table is changed in place.
\<close>

definition set_similarity :: "real list \<Rightarrow> dataframe \<Rightarrow> dataframe" where
  "set_similarity sims df =
     \<lparr>columns = (if ''similarity'' \<in> set (columns df) then columns df
                 else columns df @ [''similarity'']),
      rows = map (\<lambda>(r, s). r\<lparr>similarity := Some s\<rparr>) (zip (rows df) sims)\<rparr>"

text \<open>
  \<^verbatim>\<open>DataFrame.head(n)\<close>: the first \<open>n\<close> rows, and for a negative \<open>n\<close> all rows but
  the last \<open>-n\<close>.
\<close>

definition head :: "int \<Rightarrow> dataframe \<Rightarrow> dataframe" where
  "head n df =
     df\<lparr>rows := (if 0 \<le> n then take (nat n) (rows df)
                  else take (length (rows df) - nat (- n)) (rows df))\<rparr>"

subsection \<open>Cosine similarity\<close>

text \<open>
  \<^verbatim>\<open>sklearn.metrics.pairwise.cosine_similarity(X, Y)\<close> on two arrays of one row each,
  as \<^verbatim>\<open>reshape(1, -1)\<close> makes them. The library validates both arrays (a row without
  features is refused, then rows of different lengths are), scales each row by its
  Euclidean norm, and returns the dot product of the scaled rows. A norm below ten
  machine epsilons, zero included, is replaced by 1 before the division.
\<close>

definition float_eps :: real where
  "float_eps = 1 / 2 ^ 52"

definition row_norm :: "vector \<Rightarrow> real" where
  "row_norm x = sqrt (sum_list (map (\<lambda>a. a * a) x))"

definition handle_zeros_in_scale :: "real \<Rightarrow> real" where
  "handle_zeros_in_scale s = (if s < 10 * float_eps then 1 else s)"

definition normalize :: "vector \<Rightarrow> vector" where
  "normalize x = map (\<lambda>a. a / handle_zeros_in_scale (row_norm x)) x"

definition dot :: "vector \<Rightarrow> vector \<Rightarrow> real" where
  "dot x y = sum_list (map (\<lambda>(a, b). a * b) (zip x y))"

definition cosine_similarity :: "vector \<Rightarrow> vector \<Rightarrow> exn + real" where
  "cosine_similarity x y =
     (if x = [] \<or> y = [] then Inl (ValueError ''Found array with 0 feature(s)'')
      else if length x \<noteq> length y
        then Inl (ValueError ''Incompatible dimension for X and Y matrices'')
      else Inr (dot (normalize x) (normalize y)))"

subsection \<open>The collaborators\<close>

text \<open>
  What the object store and the OpenAI client answer. \<open>s3_upload_file\<close> is
  \<^verbatim>\<open>s3.upload_file(path, bucket, key)\<close>, which returns nothing or raises;
  \<open>chat_completion\<close> is \<^verbatim>\<open>client.chat.completions.create\<close> with the notebook's fixed
  model, system prompt, token limit and temperature, as a function of the image URL,
  followed by \<^verbatim>\<open>.choices[0].message.content\<close>; \<open>embeddings_create\<close> is
  \<^verbatim>\<open>client.embeddings.create\<close> with the fixed model, followed by
  \<^verbatim>\<open>.data[0].embedding\<close>.
\<close>

record services =
  s3_upload_file :: "string \<Rightarrow> string \<Rightarrow> string \<Rightarrow> exn option"
  chat_completion :: "string \<Rightarrow> exn + string"
  embeddings_create :: "string \<Rightarrow> exn + vector"

definition s3_bucket_name :: string where
  "s3_bucket_name = ''your-bucket-name''"

definition s3_region :: string where
  "s3_region = ''your-aws-region''"

text \<open>
  \<^verbatim>\<open>
  def upload_image_to_s3(image_path, s3_bucket, s3_folder='frames'):
      file_name = os.path.basename(image_path)
      s3_key = f"{s3_folder}/{file_name}"
      s3.upload_file(image_path, s3_bucket, s3_key)
      image_url = f"https://{s3_bucket}.s3.{s3_region}.amazonaws.com/{s3_key}"
      return image_url
  \<close>
\<close>

definition upload_image_to_s3 :: "services \<Rightarrow> string \<Rightarrow> string \<Rightarrow> string \<Rightarrow> exn + string" where
  "upload_image_to_s3 svc image_path s3_bucket s3_folder =
     (let file_name = os_path_basename image_path;
          s3_key = s3_folder @ ''/'' @ file_name
      in case s3_upload_file svc image_path s3_bucket s3_key of
           Some e \<Rightarrow> Inl e
         | None \<Rightarrow>
             Inr (''https://'' @ s3_bucket @ ''.s3.'' @ s3_region @ ''.amazonaws.com/'' @ s3_key))"

definition generate_caption :: "services \<Rightarrow> string \<Rightarrow> exn + string" where
  "generate_caption svc url = chat_completion svc url"

definition get_embedding :: "services \<Rightarrow> string \<Rightarrow> exn + vector" where
  "get_embedding svc v = embeddings_create svc v"

subsection \<open>Searching frames\<close>

text \<open>
  \<^verbatim>\<open>sort_values('similarity', ascending=False)\<close> is called without \<^verbatim>\<open>kind\<close>, so pandas
  sorts with its default, \<^verbatim>\<open>'quicksort'\<close>, whose kernel numpy chooses at run time. The
  routine is therefore a parameter of the model, and \<open>sorts_descending\<close> is what every
  routine pandas may use guarantees: the rows are rearranged, in descending order of the
  column (a missing value, were there one, last).
\<close>

definition sorts_descending :: "(row list \<Rightarrow> row list) \<Rightarrow> bool" where
  "sorts_descending sort_values \<longleftrightarrow>
     (\<forall>rs. mset (sort_values rs) = mset rs \<and>
           sorted_wrt (\<lambda>a b. similarity b \<le> similarity a) (sort_values rs))"

text \<open>
  \<^verbatim>\<open>
  def search_frames(prompt, df_frames, top_n=5):
      prompt_embedding = get_embedding(prompt)
      df_frames['similarity'] = df_frames['embedding'].apply(
          lambda x: cosine_similarity(np.array(x).reshape(1, -1),
                                      np.array(prompt_embedding).reshape(1, -1))[0][0])
      results = df_frames.sort_values('similarity', ascending=False).head(top_n)
      return results
  \<close>
  \<^verbatim>\<open>df_frames['embedding']\<close> raises \<^verbatim>\<open>KeyError\<close> on a table without that column.
  The assignment changes the caller's table, so the model returns the outcome of the
  call together with the table as the call leaves it.
\<close>

definition search_frames ::
  "services \<Rightarrow> (row list \<Rightarrow> row list) \<Rightarrow>
   string \<Rightarrow> dataframe \<Rightarrow> int \<Rightarrow> (exn + dataframe) \<times> dataframe" where
  "search_frames svc sort_values prompt df_frames top_n =
     (case get_embedding svc prompt of
        Inl e \<Rightarrow> (Inl e, df_frames)
      | Inr prompt_embedding \<Rightarrow>
          if ''embedding'' \<notin> set (columns df_frames)
          then (Inl (KeyError ''embedding''), df_frames)
          else
            (case map_raise (\<lambda>x. cosine_similarity x prompt_embedding)
                    (map (\<lambda>r. embedding (data r)) (rows df_frames)) of
               Inl e \<Rightarrow> (Inl e, df_frames)
             | Inr sims \<Rightarrow>
                 (let df_frames' = set_similarity sims df_frames;
                      results = head top_n (df_frames'\<lparr>rows := sort_values (rows df_frames')\<rparr>)
                  in (Inr results, df_frames'))))"

text \<open>
  A sorting routine that meets \<open>sorts_descending\<close>, for concrete runs: an insertion sort
  that puts a row after the rows of equal similarity already placed.
\<close>

fun insert_after :: "row \<Rightarrow> row list \<Rightarrow> row list" where
  "insert_after r [] = [r]"
| "insert_after r (x # xs) =
     (if similarity r \<le> similarity x then x # insert_after r xs else r # x # xs)"

definition stable_sort :: "row list \<Rightarrow> row list" where
  "stable_sort rs = foldl (\<lambda>acc r. insert_after r acc) [] rs"

subsection \<open>Annotating the frames\<close>

text \<open>
  \<^verbatim>\<open>
  def process_frame(frame_filename):
      image_url = upload_image_to_s3(frame_filename, s3_bucket_name)
      caption = generate_caption(image_url)
      embedding = get_embedding(caption)
      return {'frame_filename': frame_filename, 'image_url': image_url,
              'caption': caption, 'embedding': embedding}
  \<close>
  There is no \<^verbatim>\<open>try\<close> in \<^verbatim>\<open>process_frame\<close>: an exception of any of the three
  calls leaves the function.
\<close>

definition process_frame :: "services \<Rightarrow> string \<Rightarrow> exn + frame_data" where
  "process_frame svc filename =
     (case upload_image_to_s3 svc filename s3_bucket_name ''frames'' of
        Inl e \<Rightarrow> Inl e
      | Inr url \<Rightarrow>
          (case generate_caption svc url of
             Inl e \<Rightarrow> Inl e
           | Inr cap \<Rightarrow>
               (case get_embedding svc cap of
                  Inl e \<Rightarrow> Inl e
                | Inr emb \<Rightarrow>
                    Inr \<lparr>frame_filename = filename, image_url = url,
                         caption = cap, embedding = emb\<rparr>)))"

text \<open>
  \<^verbatim>\<open>
  frame_data_list = []
  with concurrent.futures.ThreadPoolExecutor(max_workers=10) as executor:
      results = executor.map(process_frame, frame_list)
      frame_data_list = list(results)
  df_frames = pd.DataFrame(frame_data_list)
  \<close>
  \<^verbatim>\<open>executor.map\<close> yields the results in the order of \<^verbatim>\<open>frame_list\<close>, whichever worker
  finishes first, and the iteration of \<^verbatim>\<open>list(results)\<close> re-raises the exception of the
  first frame, in that order, whose call raised. Nothing catches it, so the cell stops
  before \<^verbatim>\<open>df_frames\<close> is built. The answers of the collaborators are taken to depend
  on the frame only, not on the interleaving of the workers.
\<close>

definition build_df_frames :: "services \<Rightarrow> string list \<Rightarrow> exn + dataframe" where
  "build_df_frames svc frame_list =
     (case map_raise (process_frame svc) frame_list of
        Inl e \<Rightarrow> Inl e
      | Inr frame_data_list \<Rightarrow> Inr (pd_DataFrame frame_data_list))"

subsection \<open>Extracting key frames\<close>

text \<open>
  A scene is a pair of timecodes; \<^verbatim>\<open>scene[0].get_frames()\<close> is the frame number of its
  start. What the decoders and the file system do with one video file: whether the
  constructor \<^verbatim>\<open>VideoManager([video_path])\<close>, which opens the file, raises; whether
  \<^verbatim>\<open>video_manager.start()\<close> raises; what \<^verbatim>\<open>detect_scenes\<close> raises or
  \<^verbatim>\<open>get_scene_list()\<close> then returns; whether \<^verbatim>\<open>os.makedirs\<close> raises on a directory
  name; whether the OpenCV capture opens; and what \<^verbatim>\<open>cap.read()\<close> returns after a seek
  to a frame number (\<open>None\<close> for \<^verbatim>\<open>ret == False\<close>).
\<close>

type_synonym scene = "nat \<times> nat"
type_synonym image = "nat list"

record video =
  vm_open :: "exn option"
  vm_start :: "exn option"
  detect_scenes :: "exn + scene list"
  os_makedirs :: "string \<Rightarrow> exn option"
  capture_opens :: bool
  frame_at :: "nat \<Rightarrow> image option"

text \<open>
  \<^verbatim>\<open>os.makedirs(output_dir, exist_ok=True)\<close>: the empty name is refused whatever the
  file system holds; any other name is the file system's to accept.
\<close>

definition makedirs :: "video \<Rightarrow> string \<Rightarrow> exn option" where
  "makedirs v output_dir =
     (if output_dir = [] then Some (OSError ''[Errno 2] No such file or directory'')
      else os_makedirs v output_dir)"

text \<open>
  What the function leaves behind, besides its return value: the lines printed, whether
  the \<^verbatim>\<open>VideoManager\<close> and the \<^verbatim>\<open>cv2.VideoCapture\<close> still hold the video open, the
  directories made and the image files written.
\<close>

record ext_state =
  printed :: "string list"
  vm_held :: bool
  cap_held :: bool
  dirs :: "string list"
  written :: "(string \<times> image) list"

definition py_print :: "string \<Rightarrow> ext_state \<Rightarrow> ext_state" where
  "py_print line s = s\<lparr>printed := printed s @ [line]\<rparr>"

definition frame_name :: "string \<Rightarrow> nat \<Rightarrow> string" where
  "frame_name output_dir i = os_path_join output_dir (''frame_'' @ str_nat i @ ''.jpg'')"

text \<open>
  The body of the loop over \<^verbatim>\<open>enumerate(scene_list)\<close>, and the loop
  (\<^const>\<open>enumerate\<close> is the library's, counting from its first argument):
  \<^verbatim>\<open>
  print(f"Processing scene {i + 1}/{total_scenes}")
  start_timecode = scene[0]
  start_frame = start_timecode.get_frames()
  cap.set(cv2.CAP_PROP_POS_FRAMES, start_frame)
  ret, frame = cap.read()
  if ret:
      frame_filename = os.path.join(output_dir, f"frame_{i}.jpg")
      cv2.imwrite(frame_filename, frame)
      frame_list.append(frame_filename)
  else:
      print(f"Failed to read frame at position {start_frame}")
  \<close>
\<close>

definition scene_step ::
  "video \<Rightarrow> string \<Rightarrow> nat \<Rightarrow> nat \<times> scene \<Rightarrow> string list \<times> ext_state \<Rightarrow> string list \<times> ext_state" where
  "scene_step v output_dir total_scenes p acc =
     (case p of (i, scene) \<Rightarrow> case acc of (frame_list, s) \<Rightarrow>
        (let s1 = py_print (''Processing scene '' @ str_nat (i + 1) @ ''/'' @ str_nat total_scenes) s;
             start_frame = fst scene
         in case frame_at v start_frame of
              Some frame \<Rightarrow>
                (let filename = frame_name output_dir i
                 in (frame_list @ [filename],
                     s1\<lparr>written := written s1 @ [(filename, frame)]\<rparr>))
            | None \<Rightarrow>
                (frame_list,
                 py_print (''Failed to read frame at position '' @ str_nat start_frame) s1)))"

fun for_scenes ::
  "video \<Rightarrow> string \<Rightarrow> nat \<Rightarrow> (nat \<times> scene) list \<Rightarrow> string list \<times> ext_state \<Rightarrow> string list \<times> ext_state" where
  "for_scenes v output_dir total_scenes [] acc = acc"
| "for_scenes v output_dir total_scenes (p # ps) acc =
     for_scenes v output_dir total_scenes ps (scene_step v output_dir total_scenes p acc)"

text \<open>
  \<^verbatim>\<open>
  def extract_key_frames(video_path, output_dir):
      video_manager = VideoManager([video_path])
      scene_manager = SceneManager()
      scene_manager.add_detector(ContentDetector(threshold=30.0))
      try:
          video_manager.start()
          scene_manager.detect_scenes(frame_source=video_manager)
      except Exception as e:
          print(f"Error during scene detection: {e}")
          return []
      scene_list = scene_manager.get_scene_list()
      if not scene_list:
          print("No scenes were detected in the video.")
          return []
      else:
          print(f"Detected {len(scene_list)} scenes in video.")
      os.makedirs(output_dir, exist_ok=True)
      cap = cv2.VideoCapture(video_path)
      if not cap.isOpened():
          print(f"Failed to open video file {video_path}")
          return []
      frame_list = []
      total_scenes = len(scene_list)
      for i, scene in enumerate(scene_list): ...
      cap.release()
      video_manager.release()  # Release the video manager resources
      return frame_list
  \<close>
  The \<^verbatim>\<open>VideoManager\<close> holds the video from its construction until
  \<^verbatim>\<open>video_manager.release()\<close>; the capture holds it from a successful open until
  \<^verbatim>\<open>cap.release()\<close>. The constructor and \<^verbatim>\<open>os.makedirs\<close> are outside the \<^verbatim>\<open>try\<close>:
  what they raise leaves the function.
\<close>

definition extract_key_frames ::
  "video \<Rightarrow> string \<Rightarrow> string \<Rightarrow> (exn + string list) \<times> ext_state" where
  "extract_key_frames v video_path output_dir =
     (let s_init = \<lparr>printed = [], vm_held = False, cap_held = False, dirs = [], written = []\<rparr>
      in case vm_open v of
           Some e \<Rightarrow> (Inl e, s_init)
         | None \<Rightarrow>
             (let s0 = s_init\<lparr>vm_held := True\<rparr>;
                  except = (\<lambda>e. (Inr [], py_print (''Error during scene detection: '' @ message e) s0))
              in case vm_start v of
                   Some e \<Rightarrow> except e
                 | None \<Rightarrow>
                     (case detect_scenes v of
                        Inl e \<Rightarrow> except e
                      | Inr scene_list \<Rightarrow>
                          if scene_list = []
                          then (Inr [], py_print ''No scenes were detected in the video.'' s0)
                          else
                            (let s1 = py_print (''Detected '' @ str_nat (length scene_list)
                                                 @ '' scenes in video.'') s0
                             in case makedirs v output_dir of
                                  Some e \<Rightarrow> (Inl e, s1)
                                | None \<Rightarrow>
                                    (let s2 = s1\<lparr>dirs := dirs s1 @ [output_dir]\<rparr>;
                                         s3 = s2\<lparr>cap_held := capture_opens v\<rparr>
                                     in if \<not> capture_opens v
                                        then (Inr [], py_print (''Failed to open video file ''
                                                                 @ video_path) s3)
                                        else
                                          (case for_scenes v output_dir (length scene_list)
                                                  (enumerate 0 scene_list) ([], s3) of
                                             (frame_list, s4) \<Rightarrow>
                                               (Inr frame_list,
                                                s4\<lparr>cap_held := False, vm_held := False\<rparr>)))))))"

subsection \<open>The cells in order\<close>

text \<open>
  After the definitions the notebook runs, one cell after the other,
  \<^verbatim>\<open>
  frame_list = extract_key_frames(video_local_path, output_dir)
  frame_data_list = ...; df_frames = pd.DataFrame(frame_data_list)
  results = search_frames(prompt, df_frames, top_n=5)
  \<close>
  and an exception that leaves a cell ends the run. (The download of the video, before
  these cells, and the display of the results, after them, are left out.)
\<close>

definition run_cells ::
  "video \<Rightarrow> services \<Rightarrow> (row list \<Rightarrow> row list) \<Rightarrow> string \<Rightarrow> string \<Rightarrow> string \<Rightarrow> exn + dataframe" where
  "run_cells v svc sort_values video_local_path output_dir prompt =
     (case fst (extract_key_frames v video_local_path output_dir) of
        Inl e \<Rightarrow> Inl e
      | Inr frame_list \<Rightarrow>
          (case build_df_frames svc frame_list of
             Inl e \<Rightarrow> Inl e
           | Inr df_frames \<Rightarrow> fst (search_frames svc sort_values prompt df_frames 5)))"

subsection \<open>Concrete collaborators, frames and videos\<close>

text \<open>
  An object store that accepts every upload, a captioning service that times out on the
  frame \<^verbatim>\<open>frame_1.jpg\<close> and answers otherwise, and an embedding service that answers
  every text with the same vector.
\<close>

definition demo_services :: services where
  "demo_services =
     \<lparr>s3_upload_file = (\<lambda>path bucket key. None),
      chat_completion = (\<lambda>url. if os_path_basename url = ''frame_1.jpg''
                               then Inl (Failure ''Request timed out.'')
                               else Inr ''a man in a car''),
      embeddings_create = (\<lambda>text. Inr [1, 0])\<rparr>"

definition demo_frame :: "string \<Rightarrow> vector \<Rightarrow> frame_data" where
  "demo_frame name e =
     \<lparr>frame_filename = name, image_url = ''https://b.s3.r.amazonaws.com/'' @ name,
      caption = ''a man in a car'', embedding = e\<rparr>"

text \<open>
  A video on which scene detection raises, a video of three scenes whose second scene
  cannot be read, and a file that the \<^verbatim>\<open>VideoManager\<close> cannot open.
\<close>

definition corrupt_video :: video where
  "corrupt_video =
     \<lparr>vm_open = None, vm_start = None, detect_scenes = Inl (Failure ''could not decode''),
      os_makedirs = (\<lambda>d. None), capture_opens = True, frame_at = (\<lambda>k. None)\<rparr>"

definition demo_video :: video where
  "demo_video =
     \<lparr>vm_open = None, vm_start = None,
      detect_scenes = Inr [(0, 48), (48, 120), (120, 200)],
      os_makedirs = (\<lambda>d. None), capture_opens = True,
      frame_at = (\<lambda>k. if k = 48 then None else Some [k])\<rparr>"

definition unopenable_video :: video where
  "unopenable_video =
     \<lparr>vm_open = Some (OSError ''Video file(s) not found.''), vm_start = None,
      detect_scenes = Inr [], os_makedirs = (\<lambda>d. None), capture_opens = False,
      frame_at = (\<lambda>k. None)\<rparr>"

text \<open>A table as the annotation cell builds it, of two frames.\<close>

definition demo_table :: dataframe where
  "demo_table = pd_DataFrame [demo_frame ''frames/frame_0.jpg'' [0, 1],
                              demo_frame ''frames/frame_1.jpg'' [1, 0]]"

section \<open>Properties\<close>

subsection \<open>Traversals that may raise\<close>

lemma map_raise_length: "map_raise f xs = Inr ys \<Longrightarrow> length ys = length xs"
  by (induction xs arbitrary: ys) (auto split: sum.splits)

lemma map_raise_all_Inr:
  "(\<And>x. x \<in> set xs \<Longrightarrow> f x = Inr (g x)) \<Longrightarrow> map_raise f xs = Inr (map g xs)"
  by (induction xs) auto

lemma map_raise_first_Inl:
  "(\<And>x. x \<in> set xs \<Longrightarrow> f x = Inr (g x)) \<Longrightarrow> f y = Inl e \<Longrightarrow>
   map_raise f (xs @ y # zs) = Inl e"
  by (induction xs) auto

lemma map_raise_list_all2: "map_raise f xs = Inr ys \<Longrightarrow> list_all2 (\<lambda>x y. f x = Inr y) xs ys"
  by (induction xs arbitrary: ys) (auto split: sum.splits)

subsection \<open>Assigning the similarity column\<close>

lemma list_all2_zip_map:
  "list_all2 P xs ys \<Longrightarrow>
   list_all2 (\<lambda>x z. \<exists>y. P x y \<and> z = g x y) xs (map (\<lambda>(x, y). g x y) (zip xs ys))"
  by (induction xs ys rule: list_all2_induct) auto

lemma set_similarity_scores:
  assumes "list_all2 (\<lambda>r s. c r = Inr s) (rows df) sims"
  shows "list_all2 (\<lambda>r r'. \<exists>s. c r = Inr s \<and> r' = r\<lparr>similarity := Some s\<rparr>)
           (rows df) (rows (set_similarity sims df))"
  using list_all2_zip_map[OF assms, of "\<lambda>r s. r\<lparr>similarity := Some s\<rparr>"]
  by (simp add: set_similarity_def)

lemma map_fst_zip_same:
  "length xs = length ys \<Longrightarrow> map (\<lambda>p. f (fst p)) (zip xs ys) = map f xs"
  by (induction xs ys rule: list_induct2) auto

lemma set_similarity_data:
  "length sims = length (rows df) \<Longrightarrow>
   map data (rows (set_similarity sims df)) = map data (rows df)"
  by (simp add: set_similarity_def case_prod_unfold comp_def map_fst_zip_same)

lemma set_similarity_label:
  "length sims = length (rows df) \<Longrightarrow>
   map label (rows (set_similarity sims df)) = map label (rows df)"
  by (simp add: set_similarity_def case_prod_unfold comp_def map_fst_zip_same)

lemma set_similarity_length:
  "length sims = length (rows df) \<Longrightarrow> length (rows (set_similarity sims df)) = length (rows df)"
  by (simp add: set_similarity_def)

subsection \<open>Sorting routines\<close>

lemma insert_after_mset: "mset (insert_after r xs) = add_mset r (mset xs)"
  by (induction xs) auto

lemma insert_after_set: "set (insert_after r xs) = insert r (set xs)"
  by (induction xs) auto

lemma insert_after_sorted:
  "sorted_wrt (\<lambda>a b. similarity b \<le> similarity a) xs \<Longrightarrow>
   sorted_wrt (\<lambda>a b. similarity b \<le> similarity a) (insert_after r xs)"
  by (induction xs) (auto simp: insert_after_set)

lemma foldl_insert_after:
  "mset (foldl (\<lambda>acc r. insert_after r acc) acc rs) = mset acc + mset rs \<and>
   (sorted_wrt (\<lambda>a b. similarity b \<le> similarity a) acc \<longrightarrow>
    sorted_wrt (\<lambda>a b. similarity b \<le> similarity a)
      (foldl (\<lambda>acc r. insert_after r acc) acc rs))"
  by (induction rs arbitrary: acc) (auto simp: insert_after_mset insert_after_sorted)

lemma stable_sort_sorts_descending: "sorts_descending stable_sort"
  using foldl_insert_after[of "[]"] by (simp add: sorts_descending_def stable_sort_def)

lemma sorts_descending_length: "sorts_descending srt \<Longrightarrow> length (srt rs) = length rs"
  unfolding sorts_descending_def by (metis size_mset)

lemma sorts_descending_Nil: "sorts_descending srt \<Longrightarrow> srt [] = []"
  using sorts_descending_length[of srt "[]"] by simp

lemma sorts_descending_sorted:
  "sorts_descending srt \<Longrightarrow> sorted_wrt (\<lambda>a b. similarity b \<le> similarity a) (srt rs)"
  unfolding sorts_descending_def by blast

subsection \<open>What a call of \<open>search_frames\<close> returns and leaves\<close>

lemma search_frames_returns:
  assumes "get_embedding svc prompt = Inr q" "''embedding'' \<in> set (columns df)"
    and "\<forall>r \<in> set (rows df). length (embedding (data r)) = length q" "q \<noteq> []"
  defines "sims \<equiv> map (\<lambda>r. dot (normalize (embedding (data r))) (normalize q)) (rows df)"
  shows "search_frames svc srt prompt df n =
           (Inr (head n (set_similarity sims df\<lparr>rows := srt (rows (set_similarity sims df))\<rparr>)),
            set_similarity sims df)"
proof -
  have "map_raise (\<lambda>x. cosine_similarity x q) (map (\<lambda>r. embedding (data r)) (rows df))
        = Inr (map (\<lambda>x. dot (normalize x) (normalize q))
                (map (\<lambda>r. embedding (data r)) (rows df)))"
    using assms(3,4) by (intro map_raise_all_Inr) (auto simp: cosine_similarity_def)
  then show ?thesis
    using assms(1,2) by (simp add: search_frames_def sims_def o_def Let_def)
qed

lemma search_frames_Inl:
  "fst (search_frames svc srt prompt df n) = Inl e \<Longrightarrow>
   snd (search_frames svc srt prompt df n) = df"
  by (auto simp: search_frames_def Let_def split: sum.splits if_splits)

lemma search_frames_Inr:
  assumes "fst (search_frames svc srt prompt df n) = Inr res"
  shows "\<exists>q sims. get_embedding svc prompt = Inr q \<and>
          map_raise (\<lambda>x. cosine_similarity x q) (map (\<lambda>r. embedding (data r)) (rows df))
            = Inr sims \<and>
          length sims = length (rows df) \<and>
          snd (search_frames svc srt prompt df n) = set_similarity sims df \<and>
          res = head n (set_similarity sims df\<lparr>rows := srt (rows (set_similarity sims df))\<rparr>)"
proof -
  obtain q sims where q: "get_embedding svc prompt = Inr q" "''embedding'' \<in> set (columns df)"
    and m: "map_raise (\<lambda>x. cosine_similarity x q) (map (\<lambda>r. embedding (data r)) (rows df))
            = Inr sims"
    using assms by (auto simp: search_frames_def Let_def split: sum.splits if_splits)
  have "length sims = length (rows df)"
    using map_raise_length[OF m] by simp
  moreover have "search_frames svc srt prompt df n =
     (Inr (head n (set_similarity sims df\<lparr>rows := srt (rows (set_similarity sims df))\<rparr>)),
      set_similarity sims df)"
    using q m by (simp add: search_frames_def Let_def)
  ultimately show ?thesis using assms q m by auto
qed

text \<open>
  The table a search leaves when it returns: every record of the table with the cosine
  similarity of its embedding to the query's in its \<^verbatim>\<open>similarity\<close> cell.
\<close>

lemma search_frames_scored:
  assumes "fst (search_frames svc srt prompt df n) = Inr res"
  shows "\<exists>q. get_embedding svc prompt = Inr q \<and>
          list_all2 (\<lambda>r r'. \<exists>s. cosine_similarity (embedding (data r)) q = Inr s \<and>
                              r' = r\<lparr>similarity := Some s\<rparr>)
            (rows df) (rows (snd (search_frames svc srt prompt df n)))"
proof -
  obtain q sims where q: "get_embedding svc prompt = Inr q"
    and m: "map_raise (\<lambda>x. cosine_similarity x q) (map (\<lambda>r. embedding (data r)) (rows df))
            = Inr sims"
    and s: "snd (search_frames svc srt prompt df n) = set_similarity sims df"
    using search_frames_Inr[OF assms] by blast
  have "list_all2 (\<lambda>x s. cosine_similarity x q = Inr s)
          (map (\<lambda>r. embedding (data r)) (rows df)) sims"
    using map_raise_list_all2[OF m] .
  then have "list_all2 (\<lambda>r s. cosine_similarity (embedding (data r)) q = Inr s) (rows df) sims"
    by (simp add: list_all2_map1)
  then have "list_all2 (\<lambda>r r'. \<exists>s. cosine_similarity (embedding (data r)) q = Inr s \<and>
                              r' = r\<lparr>similarity := Some s\<rparr>)
               (rows df) (rows (set_similarity sims df))"
    by (rule set_similarity_scores)
  then show ?thesis using q s by auto
qed

lemma search_frames_columns:
  assumes "fst (search_frames svc srt prompt df n) = Inr res"
  shows "columns (snd (search_frames svc srt prompt df n))
         = (if ''similarity'' \<in> set (columns df) then columns df
            else columns df @ [''similarity''])"
    and "columns res = columns (snd (search_frames svc srt prompt df n))"
    and "rows res = (if 0 \<le> n then take (nat n) (srt (rows (snd (search_frames svc srt prompt df n))))
                     else take (length (srt (rows (snd (search_frames svc srt prompt df n)))) - nat (- n))
                            (srt (rows (snd (search_frames svc srt prompt df n)))))"
  using search_frames_Inr[OF assms] by (auto simp: set_similarity_def head_def)

lemmas cosine_defs = cosine_similarity_def dot_def normalize_def row_norm_def
  handle_zeros_in_scale_def float_eps_def

lemma demo_get_embedding: "get_embedding demo_services p = Inr [1, 0]"
  by (simp add: get_embedding_def demo_services_def)

lemma demo_table_rows:
  "rows demo_table
   = [\<lparr>label = 0, data = demo_frame ''frames/frame_0.jpg'' [0, 1], similarity = None\<rparr>,
      \<lparr>label = 1, data = demo_frame ''frames/frame_1.jpg'' [1, 0], similarity = None\<rparr>]"
  "columns demo_table = [''frame_filename'', ''image_url'', ''caption'', ''embedding'']"
  by (simp_all add: demo_table_def pd_DataFrame_def)

lemma search_demo_table:
  "search_frames demo_services stable_sort ''a car'' demo_table 5
   = (Inr \<lparr>columns = [''frame_filename'', ''image_url'', ''caption'', ''embedding'', ''similarity''],
           rows = [\<lparr>label = 1, data = demo_frame ''frames/frame_1.jpg'' [1, 0], similarity = Some 1\<rparr>,
                   \<lparr>label = 0, data = demo_frame ''frames/frame_0.jpg'' [0, 1], similarity = Some 0\<rparr>]\<rparr>,
      \<lparr>columns = [''frame_filename'', ''image_url'', ''caption'', ''embedding'', ''similarity''],
       rows = [\<lparr>label = 0, data = demo_frame ''frames/frame_0.jpg'' [0, 1], similarity = Some 0\<rparr>,
               \<lparr>label = 1, data = demo_frame ''frames/frame_1.jpg'' [1, 0], similarity = Some 1\<rparr>]\<rparr>)"
  by (simp add: search_frames_def demo_get_embedding demo_table_rows demo_frame_def cosine_defs
      set_similarity_def head_def stable_sort_def Let_def)

subsection \<open>Searching an empty table\<close>

text \<open>
  C1 (as amended). When the embedding service answers the query and the frame table has
  an \<^verbatim>\<open>'embedding'\<close> column but no rows, \<open>search_frames\<close> returns a table with no
  rows and raises nothing, for every \<open>top_n\<close>.
\<close>

theorem search_frames_empty_table:
  assumes "rows df = []" "''embedding'' \<in> set (columns df)"
    and "get_embedding svc prompt = Inr q" "sorts_descending sort_values"
  shows "\<exists>res. fst (search_frames svc sort_values prompt df top_n) = Inr res \<and> rows res = []"
  using assms
  by (simp add: search_frames_def Let_def head_def set_similarity_def sorts_descending_Nil)

theorem search_frames_empty_table_witness:
  "get_embedding demo_services ''anything'' = Inr [1, 0] \<and> sorts_descending stable_sort \<and>
   fst (search_frames demo_services stable_sort ''anything''
          \<lparr>columns = [''frame_filename'', ''image_url'', ''caption'', ''embedding''], rows = []\<rparr> 5)
   = Inr \<lparr>columns = [''frame_filename'', ''image_url'', ''caption'', ''embedding'', ''similarity''],
          rows = []\<rparr>"
proof -
  let ?df = "\<lparr>columns = [''frame_filename'', ''image_url'', ''caption'', ''embedding''], rows = []\<rparr>"
  have "\<exists>res. fst (search_frames demo_services stable_sort ''anything'' ?df 5) = Inr res \<and>
              rows res = []"
    by (rule search_frames_empty_table[where q = "[1, 0]"])
      (simp_all add: demo_get_embedding stable_sort_sorts_descending)
  then show ?thesis
    by (simp add: search_frames_def demo_get_embedding Let_def head_def set_similarity_def
        stable_sort_def stable_sort_sorts_descending)
qed

text \<open>
  The table the notebook itself builds from an empty list of frames has no rows and no
  columns, and the search on it raises \<^verbatim>\<open>KeyError\<close>.
\<close>

theorem search_frames_empty_DataFrame_raises:
  "rows (pd_DataFrame []) = [] \<and>
   fst (search_frames demo_services stable_sort ''anything'' (pd_DataFrame []) 5)
     = Inl (KeyError ''embedding'')"
  by (simp add: search_frames_def pd_DataFrame_def demo_get_embedding)

subsection \<open>What a search does to the table\<close>

text \<open>
  C2 (as amended). A search leaves the order, the index labels and the four fields
  (\<^verbatim>\<open>frame_filename\<close>, \<^verbatim>\<open>image_url\<close>, \<^verbatim>\<open>caption\<close>, \<^verbatim>\<open>embedding\<close>) of every record
  of the table unchanged. When it raises, the table is as it was. When it returns a
  result, it has stored in the \<^verbatim>\<open>similarity\<close> cell of every record of the table the
  cosine similarity of that record's embedding to the query's, whatever the cell held
  before, and the column is added as the last one if the table had none.
\<close>

theorem search_frames_keeps_frame_data:
  "map data (rows (snd (search_frames svc sort_values prompt df top_n))) = map data (rows df) \<and>
   map label (rows (snd (search_frames svc sort_values prompt df top_n))) = map label (rows df) \<and>
   (\<forall>e. fst (search_frames svc sort_values prompt df top_n) = Inl e \<longrightarrow>
      snd (search_frames svc sort_values prompt df top_n) = df) \<and>
   (\<forall>res. fst (search_frames svc sort_values prompt df top_n) = Inr res \<longrightarrow>
      columns (snd (search_frames svc sort_values prompt df top_n))
        = (if ''similarity'' \<in> set (columns df) then columns df
           else columns df @ [''similarity'']) \<and>
      (\<exists>q. get_embedding svc prompt = Inr q \<and>
         list_all2 (\<lambda>r r'. \<exists>s. cosine_similarity (embedding (data r)) q = Inr s \<and>
                             r' = r\<lparr>similarity := Some s\<rparr>)
           (rows df) (rows (snd (search_frames svc sort_values prompt df top_n)))))"
proof -
  let ?R = "search_frames svc sort_values prompt df top_n"
  have raised: "snd ?R = df" if "fst ?R = Inl e" for e
    using that by (rule search_frames_Inl)
  have kept: "map data (rows (snd ?R)) = map data (rows df) \<and>
              map label (rows (snd ?R)) = map label (rows df)"
  proof (cases "fst ?R")
    case (Inl e)
    then show ?thesis using raised by simp
  next
    case (Inr res)
    then obtain sims where "length sims = length (rows df)" "snd ?R = set_similarity sims df"
      using search_frames_Inr[of svc sort_values prompt df top_n res] by blast
    then show ?thesis
      by (simp add: set_similarity_data set_similarity_label)
  qed
  show ?thesis
    using kept raised search_frames_columns(1)[of svc sort_values prompt df top_n]
      search_frames_scored[of svc sort_values prompt df top_n]
    by blast
qed

text \<open>
  A first search adds the column with the scores; a second search of the table it left
  overwrites the scores and adds nothing.
\<close>

theorem search_frames_keeps_frame_data_witness:
  "search_frames demo_services stable_sort ''a car'' demo_table 5
   = (Inr \<lparr>columns = [''frame_filename'', ''image_url'', ''caption'', ''embedding'', ''similarity''],
           rows = [\<lparr>label = 1, data = demo_frame ''frames/frame_1.jpg'' [1, 0], similarity = Some 1\<rparr>,
                   \<lparr>label = 0, data = demo_frame ''frames/frame_0.jpg'' [0, 1], similarity = Some 0\<rparr>]\<rparr>,
      \<lparr>columns = [''frame_filename'', ''image_url'', ''caption'', ''embedding'', ''similarity''],
       rows = [\<lparr>label = 0, data = demo_frame ''frames/frame_0.jpg'' [0, 1], similarity = Some 0\<rparr>,
               \<lparr>label = 1, data = demo_frame ''frames/frame_1.jpg'' [1, 0], similarity = Some 1\<rparr>]\<rparr>) \<and>
   cosine_similarity [0, 1] [1, 0] = Inr 0 \<and> cosine_similarity [1, 0] [1, 0] = Inr 1 \<and>
   map data (rows (snd (search_frames demo_services stable_sort ''a car'' demo_table 5)))
   = map data (rows demo_table) \<and>
   snd (search_frames demo_services stable_sort ''a car''
          (snd (search_frames demo_services stable_sort ''a car'' demo_table 5)) 5)
   = snd (search_frames demo_services stable_sort ''a car'' demo_table 5)"
proof -
  have second: "snd (search_frames demo_services stable_sort ''a car''
          \<lparr>columns = [''frame_filename'', ''image_url'', ''caption'', ''embedding'', ''similarity''],
           rows = [\<lparr>label = 0, data = demo_frame ''frames/frame_0.jpg'' [0, 1], similarity = Some 0\<rparr>,
                   \<lparr>label = 1, data = demo_frame ''frames/frame_1.jpg'' [1, 0], similarity = Some 1\<rparr>]\<rparr> 5)
     = \<lparr>columns = [''frame_filename'', ''image_url'', ''caption'', ''embedding'', ''similarity''],
        rows = [\<lparr>label = 0, data = demo_frame ''frames/frame_0.jpg'' [0, 1], similarity = Some 0\<rparr>,
                \<lparr>label = 1, data = demo_frame ''frames/frame_1.jpg'' [1, 0], similarity = Some 1\<rparr>]\<rparr>"
    by (simp add: search_frames_def demo_get_embedding demo_frame_def cosine_defs
        set_similarity_def Let_def)
  have again: "snd (search_frames demo_services stable_sort ''a car''
          (snd (search_frames demo_services stable_sort ''a car'' demo_table 5)) 5)
     = snd (search_frames demo_services stable_sort ''a car'' demo_table 5)"
    by (simp only: search_demo_table snd_conv second)
  have scores: "cosine_similarity [0, 1] [1, 0] = Inr 0" "cosine_similarity [1, 0] [1, 0] = Inr 1"
    by (simp_all add: cosine_defs)
  have kept: "map data (rows (snd (search_frames demo_services stable_sort ''a car'' demo_table 5)))
              = map data (rows demo_table)"
    using search_frames_keeps_frame_data[of demo_services stable_sort "''a car''" demo_table 5]
    by blast
  show ?thesis
    using search_demo_table scores kept again by blast
qed

text \<open>
  After a search, the table holds the score of its record: it is not the table it was.
\<close>

theorem search_frames_stores_similarity:
  "snd (search_frames demo_services stable_sort ''a car''
          (pd_DataFrame [demo_frame ''frame_0.jpg'' [1, 0]]) 5)
   = \<lparr>columns = [''frame_filename'', ''image_url'', ''caption'', ''embedding'', ''similarity''],
      rows = [\<lparr>label = 0, data = demo_frame ''frame_0.jpg'' [1, 0], similarity = Some 1\<rparr>]\<rparr> \<and>
   pd_DataFrame [demo_frame ''frame_0.jpg'' [1, 0]]
   = \<lparr>columns = [''frame_filename'', ''image_url'', ''caption'', ''embedding''],
      rows = [\<lparr>label = 0, data = demo_frame ''frame_0.jpg'' [1, 0], similarity = None\<rparr>]\<rparr>"
  by (simp add: search_frames_def pd_DataFrame_def demo_get_embedding demo_frame_def cosine_defs
      set_similarity_def Let_def)

subsection \<open>The length and the order of the results\<close>

lemma pd_DataFrame_columns:
  "frame_data_list \<noteq> [] \<Longrightarrow> ''embedding'' \<in> set (columns (pd_DataFrame frame_data_list))"
  by (simp add: pd_DataFrame_def)

lemma mset_take_subseteq: "mset (take n xs) \<subseteq># mset xs"
  by (metis append_take_drop_id mset_append mset_subset_eq_add_left)

text \<open>
  C4 (as amended). When the query is embedded and the table has the \<^verbatim>\<open>'embedding'\<close>
  column, as every table built from at least one record has, with embeddings of the
  dimension of the query's, which is not 0, \<open>search_frames\<close> with a positive \<open>top_n\<close>
  returns exactly \<open>min top_n (size of the table)\<close> rows: the first \<open>top_n\<close> rows of the
  sorted table, in descending order of similarity, each of them a record of the table
  with the cosine similarity of its embedding to the query's. When \<open>top_n\<close> is at least
  the size, the rows returned are all the records of the table.
\<close>

theorem search_frames_length:
  assumes "sorts_descending sort_values" "0 < top_n"
    and "get_embedding svc prompt = Inr q" "q \<noteq> []" "''embedding'' \<in> set (columns df)"
    and "\<forall>r \<in> set (rows df). length (embedding (data r)) = length q"
  shows "\<exists>res. fst (search_frames svc sort_values prompt df top_n) = Inr res \<and>
           length (rows res) = min (nat top_n) (length (rows df)) \<and>
           rows res = take (nat top_n)
                        (sort_values (rows (snd (search_frames svc sort_values prompt df top_n)))) \<and>
           columns res = columns (snd (search_frames svc sort_values prompt df top_n)) \<and>
           sorted_wrt (\<lambda>a b. similarity b \<le> similarity a) (rows res) \<and>
           mset (rows res) \<subseteq># mset (rows (snd (search_frames svc sort_values prompt df top_n))) \<and>
           (length (rows df) \<le> nat top_n \<longrightarrow>
              mset (rows res) = mset (rows (snd (search_frames svc sort_values prompt df top_n)))) \<and>
           list_all2 (\<lambda>r r'. \<exists>s. cosine_similarity (embedding (data r)) q = Inr s \<and>
                               r' = r\<lparr>similarity := Some s\<rparr>)
             (rows df) (rows (snd (search_frames svc sort_values prompt df top_n)))"
proof -
  let ?R = "search_frames svc sort_values prompt df top_n"
  define sims where
    "sims = map (\<lambda>r. dot (normalize (embedding (data r))) (normalize q)) (rows df)"
  define df' where "df' = set_similarity sims df"
  define res where "res = head top_n (df'\<lparr>rows := sort_values (rows df')\<rparr>)"
  have len: "length (rows df') = length (rows df)"
    by (simp add: df'_def sims_def set_similarity_length)
  have run: "?R = (Inr res, df')"
    using search_frames_returns[OF assms(3,5,6,4), of sort_values top_n]
    by (simp add: sims_def df'_def res_def)
  have rows_res: "rows res = take (nat top_n) (sort_values (rows df'))"
    using assms(2) by (simp add: res_def head_def)
  have sorted_all: "sorted_wrt (\<lambda>a b. similarity b \<le> similarity a) (sort_values (rows df'))"
    using assms(1) by (rule sorts_descending_sorted)
  have perm: "mset (sort_values (rows df')) = mset (rows df')"
    using assms(1) by (simp add: sorts_descending_def)
  have length_res: "length (rows res) = min (nat top_n) (length (rows df))"
    using assms(1) len by (simp add: rows_res sorts_descending_length)
  have sorted_res: "sorted_wrt (\<lambda>a b. similarity b \<le> similarity a) (rows res)"
    unfolding rows_res using sorted_all by (rule sorted_wrt_take)
  have sub: "mset (rows res) \<subseteq># mset (rows df')"
    unfolding rows_res using mset_take_subseteq[of "nat top_n" "sort_values (rows df')"]
    by (simp only: perm)
  have whole: "mset (rows res) = mset (rows df')" if "length (rows df) \<le> nat top_n"
  proof -
    have "length (sort_values (rows df')) \<le> nat top_n"
      using that assms(1) len by (simp add: sorts_descending_length)
    then show ?thesis
      by (simp add: rows_res perm)
  qed
  obtain q' where q': "get_embedding svc prompt = Inr q'"
    "list_all2 (\<lambda>r r'. \<exists>s. cosine_similarity (embedding (data r)) q' = Inr s \<and>
                        r' = r\<lparr>similarity := Some s\<rparr>) (rows df) (rows (snd ?R))"
    using search_frames_scored[of svc sort_values prompt df top_n res] run by auto
  have scored: "list_all2 (\<lambda>r r'. \<exists>s. cosine_similarity (embedding (data r)) q = Inr s \<and>
                        r' = r\<lparr>similarity := Some s\<rparr>) (rows df) (rows (snd ?R))"
    using q' assms(3) by simp
  have cols: "columns res = columns df'"
    by (simp add: res_def head_def)
  show ?thesis
    using run length_res rows_res sorted_res sub whole scored cols by simp
qed

theorem search_frames_length_witness:
  "sorts_descending stable_sort \<and> get_embedding demo_services ''a car'' = Inr [1, 0] \<and>
   length (rows demo_table) = 2 \<and>
   fst (search_frames demo_services stable_sort ''a car'' demo_table 5)
   = Inr \<lparr>columns = [''frame_filename'', ''image_url'', ''caption'', ''embedding'', ''similarity''],
          rows = [\<lparr>label = 1, data = demo_frame ''frames/frame_1.jpg'' [1, 0], similarity = Some 1\<rparr>,
                  \<lparr>label = 0, data = demo_frame ''frames/frame_0.jpg'' [0, 1], similarity = Some 0\<rparr>]\<rparr> \<and>
   (\<exists>res. fst (search_frames demo_services stable_sort ''a car'' demo_table 5) = Inr res \<and>
          length (rows res) = min (nat 5) (length (rows demo_table)))"
proof -
  have hyps: "sorts_descending stable_sort" "(0::int) < 5"
    "get_embedding demo_services ''a car'' = Inr [1, 0]" "[1, 0 :: real] \<noteq> []"
    "''embedding'' \<in> set (columns demo_table)"
    "\<forall>r \<in> set (rows demo_table). length (embedding (data r)) = length [1, 0 :: real]"
    by (simp_all add: stable_sort_sorts_descending demo_get_embedding demo_table_rows
        demo_frame_def)
  have "\<exists>res. fst (search_frames demo_services stable_sort ''a car'' demo_table 5) = Inr res \<and>
          length (rows res) = min (nat 5) (length (rows demo_table))"
    using search_frames_length[OF hyps] by blast
  moreover have "length (rows demo_table) = 2"
    by (simp add: demo_table_rows)
  ultimately show ?thesis
    using hyps(1,3) search_demo_table by simp
qed

text \<open>
  On the table built from no record, of size 0, the call returns no sequence of
  \<open>min 3 0 = 0\<close> results: it raises.
\<close>

theorem search_frames_length_no_columns:
  "length (rows (pd_DataFrame [])) = 0 \<and>
   search_frames demo_services stable_sort ''a car'' (pd_DataFrame []) 3
     = (Inl (KeyError ''embedding''), pd_DataFrame [])"
  by (simp add: search_frames_def pd_DataFrame_def demo_get_embedding)

subsection \<open>The zero vector\<close>

lemma sum_list_zero: "\<forall>x \<in> set xs. x = (0::real) \<Longrightarrow> sum_list xs = 0"
  by (induction xs) auto

lemma dot_zero_left: "\<forall>x \<in> set xs. x = 0 \<Longrightarrow> dot xs ys = 0"
  unfolding dot_def by (rule sum_list_zero) (auto dest: set_zip_leftD)

lemma dot_normalize_zero:
  assumes "\<forall>x \<in> set e. x = 0"
  shows "dot (normalize e) (normalize q) = 0"
proof -
  have "\<forall>x \<in> set (normalize e). x = 0"
    using assms by (simp add: normalize_def)
  then show ?thesis
    by (rule dot_zero_left)
qed

text \<open>
  C9. The similarity of a stored embedding that is the zero vector to a query embedding
  of the same dimension is 0, and the computation raises nothing: the zero norm is
  replaced by 1 before the division.
\<close>

theorem cosine_similarity_zero_vector:
  assumes "\<forall>x \<in> set e. x = 0" "length e = length q" "q \<noteq> []"
  shows "handle_zeros_in_scale (row_norm e) = 1 \<and> cosine_similarity e q = Inr 0"
proof -
  have "row_norm e = 0"
    using assms(1) by (simp add: row_norm_def sum_list_zero)
  then have guarded: "handle_zeros_in_scale (row_norm e) = 1"
    by (simp add: handle_zeros_in_scale_def float_eps_def)
  have "dot (normalize e) (normalize q) = 0"
    using assms(1) by (rule dot_normalize_zero)
  moreover have "e \<noteq> []"
    using assms(2,3) by auto
  ultimately show ?thesis
    using assms(2,3) guarded by (simp add: cosine_similarity_def)
qed

theorem cosine_similarity_zero_vector_witness:
  "length [0, 0 :: real] = length [1, 0 :: real] \<and> cosine_similarity [0, 0] [1, 0] = Inr 0"
  using cosine_similarity_zero_vector[of "[0, 0]" "[1, 0]"] by simp

text \<open>
  In the table a search leaves, every record carries the similarity of its own
  embedding to the query's, so a record whose embedding is the zero vector carries 0.
\<close>

lemma zip_map_same: "zip xs (map f xs) = map (\<lambda>x. (x, f x)) xs"
  by (induction xs) auto

lemma search_frames_scores:
  assumes "get_embedding svc prompt = Inr q" "''embedding'' \<in> set (columns df)"
    and "\<forall>r \<in> set (rows df). length (embedding (data r)) = length q" "q \<noteq> []"
  shows "rows (snd (search_frames svc srt prompt df n))
         = map (\<lambda>r. r\<lparr>similarity := Some (dot (normalize (embedding (data r))) (normalize q))\<rparr>)
             (rows df)"
  using search_frames_returns[OF assms, of srt n]
  by (simp add: set_similarity_def zip_map_same comp_def)

lemma search_frames_zero_embedding:
  assumes "get_embedding svc prompt = Inr q" "''embedding'' \<in> set (columns df)"
    and "\<forall>r \<in> set (rows df). length (embedding (data r)) = length q" "q \<noteq> []"
    and "r \<in> set (rows (snd (search_frames svc srt prompt df n)))"
    and "\<forall>x \<in> set (embedding (data r)). x = 0"
  shows "similarity r = Some 0"
proof -
  obtain r0 where r0: "r0 \<in> set (rows df)"
      "r = r0\<lparr>similarity := Some (dot (normalize (embedding (data r0))) (normalize q))\<rparr>"
    using assms(5) unfolding search_frames_scores[OF assms(1-4)] by auto
  have "\<forall>x \<in> set (embedding (data r0)). x = 0"
    using assms(6) r0(2) by simp
  then have "dot (normalize (embedding (data r0))) (normalize q) = 0"
    by (rule dot_normalize_zero)
  then show ?thesis
    using r0(2) by simp
qed

subsection \<open>Annotating the frames\<close>

lemma process_frame_demo_0:
  "process_frame demo_services ''frames/frame_0.jpg''
   = Inr \<lparr>frame_filename = ''frames/frame_0.jpg'',
          image_url = ''https://your-bucket-name.s3.your-aws-region.amazonaws.com/frames/frame_0.jpg'',
          caption = ''a man in a car'', embedding = [1, 0]\<rparr>"
  by (simp add: process_frame_def upload_image_to_s3_def generate_caption_def get_embedding_def
      demo_services_def os_path_basename_def s3_bucket_name_def s3_region_def)

lemma process_frame_demo_1:
  "process_frame demo_services ''frames/frame_1.jpg'' = Inl (Failure ''Request timed out.'')"
  by (simp add: process_frame_def upload_image_to_s3_def generate_caption_def get_embedding_def
      demo_services_def os_path_basename_def s3_bucket_name_def s3_region_def)

text \<open>
  C3 (as amended). If the annotation of every frame succeeds, the table holds one record
  per frame, in the order of the frames. If the annotation of a frame raises after the
  frames before it succeeded, that exception leaves the parallel stage and no table is
  built, whatever the frames after it do.
\<close>

theorem build_df_frames_all_or_error:
  assumes "\<forall>f \<in> set done. process_frame svc f = Inr (g f)"
  shows "build_df_frames svc done = Inr (pd_DataFrame (map g done)) \<and>
         length (rows (pd_DataFrame (map g done))) = length done \<and>
         (\<forall>f e rest. process_frame svc f = Inl e \<longrightarrow>
            build_df_frames svc (done @ f # rest) = Inl e)"
proof -
  have ok: "map_raise (process_frame svc) done = Inr (map g done)"
    using assms by (intro map_raise_all_Inr) simp
  have bad: "map_raise (process_frame svc) (done @ f # rest) = Inl e"
    if "process_frame svc f = Inl e" for f e rest
    using assms that by (intro map_raise_first_Inl[where g = g]) simp_all
  show ?thesis
    using ok bad by (simp add: build_df_frames_def pd_DataFrame_def)
qed

theorem build_df_frames_all_or_error_witness:
  "process_frame demo_services ''frames/frame_0.jpg''
   = Inr (demo_frame ''frames/frame_0.jpg'' [1, 0]\<lparr>image_url :=
      ''https://your-bucket-name.s3.your-aws-region.amazonaws.com/frames/frame_0.jpg''\<rparr>) \<and>
   process_frame demo_services ''frames/frame_1.jpg'' = Inl (Failure ''Request timed out.'') \<and>
   build_df_frames demo_services [''frames/frame_0.jpg'']
   = Inr (pd_DataFrame [demo_frame ''frames/frame_0.jpg'' [1, 0]\<lparr>image_url :=
      ''https://your-bucket-name.s3.your-aws-region.amazonaws.com/frames/frame_0.jpg''\<rparr>]) \<and>
   build_df_frames demo_services
     [''frames/frame_0.jpg'', ''frames/frame_1.jpg'', ''frames/frame_2.jpg'']
   = Inl (Failure ''Request timed out.'')"
proof -
  let ?g = "\<lambda>f. demo_frame f [1, 0]\<lparr>image_url :=
      ''https://your-bucket-name.s3.your-aws-region.amazonaws.com/frames/frame_0.jpg''\<rparr>"
  have h: "\<forall>f \<in> set [''frames/frame_0.jpg'']. process_frame demo_services f = Inr (?g f)"
    by (simp add: process_frame_demo_0 demo_frame_def)
  show ?thesis
    using build_df_frames_all_or_error[of "[''frames/frame_0.jpg'']" demo_services ?g, OF h]
      process_frame_demo_1
    by (simp add: process_frame_demo_0 demo_frame_def)
qed

text \<open>
  Of two frames the first is annotated and the caption call of the second times out:
  the stage ends with the exception, not with a table of one record.
\<close>

theorem build_df_frames_one_failure_aborts:
  "process_frame demo_services ''frames/frame_0.jpg''
   = Inr \<lparr>frame_filename = ''frames/frame_0.jpg'',
          image_url = ''https://your-bucket-name.s3.your-aws-region.amazonaws.com/frames/frame_0.jpg'',
          caption = ''a man in a car'', embedding = [1, 0]\<rparr> \<and>
   build_df_frames demo_services [''frames/frame_0.jpg'', ''frames/frame_1.jpg'']
   = Inl (Failure ''Request timed out.'')"
  by (simp add: build_df_frames_def process_frame_demo_0 process_frame_demo_1)

subsection \<open>Names of the frame files\<close>

lemma digit_char_inj: "a < 10 \<Longrightarrow> b < 10 \<Longrightarrow> digit_char a = digit_char b \<Longrightarrow> a = b"
proof -
  assume "a < 10" "b < 10" "digit_char a = digit_char b"
  moreover have "distinct ''0123456789''" by simp
  ultimately show "a = b"
    unfolding digit_char_def by (simp add: nth_eq_iff_index_eq)
qed

lemma str_nat_nonempty: "str_nat n \<noteq> []"
  by (subst str_nat.simps) simp

lemma str_nat_inj: "str_nat a = str_nat b \<Longrightarrow> a = b"
proof (induction a arbitrary: b rule: str_nat.induct)
  case (1 n)
  show ?case
  proof (cases "n < 10")
    case True
    then have sn: "str_nat n = [digit_char n]"
      by (subst str_nat.simps) simp
    show ?thesis
    proof (cases "b < 10")
      case True
      then have "str_nat b = [digit_char b]"
        by (subst str_nat.simps) simp
      with sn 1(2) \<open>n < 10\<close> True show ?thesis
        by (auto dest: digit_char_inj)
    next
      case False
      then have "str_nat b = str_nat (b div 10) @ [digit_char (b mod 10)]"
        by (subst str_nat.simps) simp
      with sn 1(2) str_nat_nonempty[of "b div 10"] show ?thesis
        by (cases "str_nat (b div 10)") auto
    qed
  next
    case False
    then have sn: "str_nat n = str_nat (n div 10) @ [digit_char (n mod 10)]"
      by (subst str_nat.simps) simp
    show ?thesis
    proof (cases "b < 10")
      case True
      then have "str_nat b = [digit_char b]"
        by (subst str_nat.simps) simp
      with sn 1(2) str_nat_nonempty[of "n div 10"] show ?thesis
        by (cases "str_nat (n div 10)") auto
    next
      case b: False
      then have "str_nat b = str_nat (b div 10) @ [digit_char (b mod 10)]"
        by (subst str_nat.simps) simp
      with sn 1(2) have eq: "str_nat (n div 10) = str_nat (b div 10)"
          "digit_char (n mod 10) = digit_char (b mod 10)"
        by auto
      have "n div 10 = b div 10"
        using 1(1)[OF False eq(1)] .
      moreover have "n mod 10 = b mod 10"
        using eq(2) digit_char_inj[of "n mod 10" "b mod 10"] by simp
      ultimately show ?thesis
        by (metis div_mult_mod_eq)
    qed
  qed
qed

lemma os_path_join_relative:
  "b \<noteq> [] \<Longrightarrow> hd b \<noteq> CHR ''/'' \<Longrightarrow>
   os_path_join a b = (if a = [] \<or> last a = CHR ''/'' then a else a @ ''/'') @ b"
  by (simp add: os_path_join_def)

lemma frame_name_inj: "frame_name d i = frame_name d j \<Longrightarrow> i = j"
  by (auto simp: frame_name_def os_path_join_relative dest: str_nat_inj split: if_splits)

lemma distinct_map_frame_name: "distinct xs \<Longrightarrow> distinct (map (frame_name d) xs)"
  by (auto simp: distinct_map intro!: inj_onI dest: frame_name_inj)

lemma distinct_frame_names:
  assumes "distinct (map fst ps)"
  shows "distinct (map (\<lambda>(i, scene). frame_name d i) (filter P ps))"
proof -
  have "distinct (map fst (filter P ps))"
    using assms by (simp add: distinct_map_filter)
  then have "distinct (map (frame_name d) (map fst (filter P ps)))"
    by (rule distinct_map_frame_name)
  then show ?thesis by (simp add: comp_def case_prod_unfold)
qed

subsection \<open>The loop over the scenes\<close>

lemma fst_for_scenes:
  "fst (for_scenes v d t ps (fl, s))
     = fl @ map (\<lambda>(i, scene). frame_name d i)
              (filter (\<lambda>(i, scene). frame_at v (fst scene) \<noteq> None) ps)"
  by (induction ps arbitrary: fl s) (auto simp: scene_step_def Let_def split: option.splits)

lemma written_for_scenes:
  "map fst (written (snd (for_scenes v d t ps (fl, s))))
     = map fst (written s) @ map (\<lambda>(i, scene). frame_name d i)
              (filter (\<lambda>(i, scene). frame_at v (fst scene) \<noteq> None) ps)"
  by (induction ps arbitrary: fl s)
    (auto simp: scene_step_def py_print_def Let_def split: option.splits)

lemma printed_scene_step:
  "\<exists>new. printed (snd (scene_step v d t (i, scene) (fl, s))) = printed s @ new \<and>
         (frame_at v (fst scene) = None \<longrightarrow>
            (''Failed to read frame at position '' @ str_nat (fst scene)) \<in> set new)"
  by (auto simp: scene_step_def py_print_def Let_def split: option.splits)

lemma printed_for_scenes:
  "\<exists>new. printed (snd (for_scenes v d t ps (fl, s))) = printed s @ new \<and>
         (\<forall>(i, scene) \<in> set ps. frame_at v (fst scene) = None \<longrightarrow>
            (''Failed to read frame at position '' @ str_nat (fst scene)) \<in> set new)"
proof (induction ps arbitrary: fl s)
  case Nil
  then show ?case by simp
next
  case (Cons p ps)
  obtain i scene where p: "p = (i, scene)" by (cases p)
  obtain fl1 s1 where st: "scene_step v d t p (fl, s) = (fl1, s1)"
    by (cases "scene_step v d t p (fl, s)")
  obtain new1 where n1: "printed s1 = printed s @ new1"
      "frame_at v (fst scene) = None \<longrightarrow>
         (''Failed to read frame at position '' @ str_nat (fst scene)) \<in> set new1"
    using printed_scene_step[of v d t i scene fl s] st p by auto
  obtain new2 where n2: "printed (snd (for_scenes v d t ps (fl1, s1))) = printed s1 @ new2"
      "\<forall>(i, scene) \<in> set ps. frame_at v (fst scene) = None \<longrightarrow>
         (''Failed to read frame at position '' @ str_nat (fst scene)) \<in> set new2"
    using Cons.IH[of fl1 s1] by auto
  show ?case
    using st n1 n2 p by (intro exI[of _ "new1 @ new2"]) auto
qed

subsection \<open>The paths of \<open>extract_key_frames\<close>\<close>

lemma extract_key_frames_loop:
  fixes d :: string and scene_list :: "scene list"
  defines "s3 \<equiv> \<lparr>printed = [''Detected '' @ str_nat (length scene_list) @ '' scenes in video.''],
                  vm_held = True, cap_held = True, dirs = [d], written = []\<rparr>"
  assumes "vm_open v = None" "vm_start v = None" "detect_scenes v = Inr scene_list"
    "scene_list \<noteq> []" "makedirs v d = None" "capture_opens v"
  shows "extract_key_frames v path d =
           (Inr (fst (for_scenes v d (length scene_list) (enumerate 0 scene_list) ([], s3))),
            snd (for_scenes v d (length scene_list) (enumerate 0 scene_list) ([], s3))
              \<lparr>cap_held := False, vm_held := False\<rparr>)"
  using assms(2-7)
  by (simp add: extract_key_frames_def Let_def py_print_def s3_def split: prod.splits)

text \<open>The three branches that return early, once the constructor has returned.\<close>

lemma extract_key_frames_early:
  assumes "vm_open v = None"
    and "vm_start v \<noteq> None \<or> (\<exists>e. detect_scenes v = Inl e) \<or> detect_scenes v = Inr [] \<or>
         (makedirs v d = None \<and> \<not> capture_opens v)"
  shows "fst (extract_key_frames v path d) = Inr []"
    and "written (snd (extract_key_frames v path d)) = []"
  using assms
  by (auto simp: extract_key_frames_def Let_def py_print_def
      split: option.splits sum.splits prod.splits)

text \<open>The two calls outside the \<^verbatim>\<open>try\<close>: what they raise is the outcome of the function.\<close>

lemma extract_key_frames_vm_open_raises:
  "vm_open v = Some e \<Longrightarrow>
   extract_key_frames v path d
   = (Inl e, \<lparr>printed = [], vm_held = False, cap_held = False, dirs = [], written = []\<rparr>)"
  by (simp add: extract_key_frames_def)

lemma extract_key_frames_makedirs_raises:
  assumes "vm_open v = None" "vm_start v = None" "detect_scenes v = Inr scene_list"
    "scene_list \<noteq> []" "makedirs v d = Some e"
  shows "fst (extract_key_frames v path d) = Inl e"
    and "written (snd (extract_key_frames v path d)) = []"
    and "vm_held (snd (extract_key_frames v path d))"
  using assms by (simp_all add: extract_key_frames_def Let_def py_print_def)

text \<open>
  The \<^verbatim>\<open>VideoManager\<close>, once constructed, is released on the path through the loop and
  on no other; the capture is never held when the function returns.
\<close>

lemma extract_key_frames_vm_held:
  "vm_held (snd (extract_key_frames v path d))
   = (vm_open v = None \<and>
      \<not> (vm_start v = None \<and> makedirs v d = None \<and> capture_opens v \<and>
         (\<exists>scene_list. detect_scenes v = Inr scene_list \<and> scene_list \<noteq> [])))"
  by (auto simp: extract_key_frames_def Let_def py_print_def
      split: option.splits sum.splits prod.splits)

lemma extract_key_frames_cap_held: "\<not> cap_held (snd (extract_key_frames v path d))"
  by (auto simp: extract_key_frames_def Let_def py_print_def
      split: option.splits sum.splits prod.splits)

text \<open>
  C7. After a successful detection, the frame files returned are those of the scenes
  whose first frame could be read, in the order of the scenes, each named by the
  position of its scene; a scene whose read fails gets the diagnostic and the loop goes
  on. So there are no more files than scenes and no name occurs twice, among the files
  written and in the list returned.
\<close>

theorem extract_key_frames_skips_unreadable:
  assumes "vm_open v = None" "vm_start v = None" "detect_scenes v = Inr scene_list"
  shows "length (written (snd (extract_key_frames v video_path output_dir))) \<le> length scene_list \<and>
         distinct (map fst (written (snd (extract_key_frames v video_path output_dir)))) \<and>
         (\<forall>frame_list. fst (extract_key_frames v video_path output_dir) = Inr frame_list \<longrightarrow>
            frame_list = map fst (written (snd (extract_key_frames v video_path output_dir))) \<and>
            length frame_list \<le> length scene_list \<and> distinct frame_list) \<and>
         (capture_opens v \<and> makedirs v output_dir = None \<longrightarrow>
            fst (extract_key_frames v video_path output_dir)
              = Inr (map (\<lambda>(i, scene). frame_name output_dir i)
                      (filter (\<lambda>(i, scene). frame_at v (fst scene) \<noteq> None)
                         (enumerate 0 scene_list))) \<and>
            (\<forall>scene \<in> set scene_list. frame_at v (fst scene) = None \<longrightarrow>
               (''Failed to read frame at position '' @ str_nat (fst scene))
                 \<in> set (printed (snd (extract_key_frames v video_path output_dir)))))"
proof -
  let ?R = "extract_key_frames v video_path output_dir"
  consider (loop) "scene_list \<noteq> []" "makedirs v output_dir = None" "capture_opens v"
    | (early) "scene_list = [] \<or> (makedirs v output_dir = None \<and> \<not> capture_opens v)"
    | (raised) e where "scene_list \<noteq> []" "makedirs v output_dir = Some e"
    by (cases "makedirs v output_dir") auto
  then show ?thesis
  proof cases
    case early
    then have "fst ?R = Inr []" "written (snd ?R) = []"
      using extract_key_frames_early[OF assms(1), of output_dir video_path] assms(3) by auto
    then show ?thesis using early by auto
  next
    case raised
    then have "fst ?R = Inl e" "written (snd ?R) = []"
      using extract_key_frames_makedirs_raises[OF assms, of output_dir e video_path] by auto
    then show ?thesis using raised by auto
  next
    case loop
    define s3 where
      "s3 = \<lparr>printed = [''Detected '' @ str_nat (length scene_list) @ '' scenes in video.''],
             vm_held = True, cap_held = True, dirs = [output_dir], written = []\<rparr>"
    let ?loop = "for_scenes v output_dir (length scene_list) (enumerate 0 scene_list) ([], s3)"
    let ?names = "map (\<lambda>(i, scene). frame_name output_dir i)
                    (filter (\<lambda>(i, scene). frame_at v (fst scene) \<noteq> None) (enumerate 0 scene_list))"
    have run: "?R = (Inr (fst ?loop), snd ?loop\<lparr>cap_held := False, vm_held := False\<rparr>)"
      using extract_key_frames_loop[OF assms loop, of video_path] by (simp add: s3_def)
    have frames: "fst ?loop = ?names"
      by (simp add: fst_for_scenes)
    have files: "map fst (written (snd ?loop)) = ?names"
      by (simp add: written_for_scenes s3_def)
    have len: "length ?names \<le> length scene_list"
      using length_filter_le[of _ "enumerate 0 scene_list"] by simp
    have dist: "distinct ?names"
      by (rule distinct_frame_names) simp
    obtain new where new: "printed (snd ?loop) = printed s3 @ new"
        "\<forall>(i, scene) \<in> set (enumerate 0 scene_list). frame_at v (fst scene) = None \<longrightarrow>
           (''Failed to read frame at position '' @ str_nat (fst scene)) \<in> set new"
      using printed_for_scenes[of v output_dir "length scene_list" "enumerate 0 scene_list" "[]" s3]
      by auto
    have diag: "(''Failed to read frame at position '' @ str_nat (fst scene))
                  \<in> set (printed (snd ?loop))"
      if "scene \<in> set scene_list" "frame_at v (fst scene) = None" for scene
    proof -
      have "scene \<in> set (map snd (enumerate 0 scene_list))"
        using that(1) by simp
      then obtain i where "(i, scene) \<in> set (enumerate 0 scene_list)"
        by (auto simp del: map_snd_enumerate)
      then show ?thesis using new that(2) by auto
    qed
    have wlen: "length (written (snd ?loop)) \<le> length scene_list"
      using len files by (metis length_map)
    show ?thesis
      using run frames files len dist diag wlen by simp
  qed
qed

theorem extract_key_frames_skips_unreadable_witness:
  "vm_open demo_video = None \<and> vm_start demo_video = None \<and>
   detect_scenes demo_video = Inr [(0, 48), (48, 120), (120, 200)] \<and>
   capture_opens demo_video \<and> makedirs demo_video ''frames'' = None \<and>
   frame_at demo_video 48 = None \<and>
   fst (extract_key_frames demo_video ''movie.mp4'' ''frames'')
     = Inr [''frames/frame_0.jpg'', ''frames/frame_2.jpg''] \<and>
   ''Failed to read frame at position 48''
     \<in> set (printed (snd (extract_key_frames demo_video ''movie.mp4'' ''frames'')))"
proof -
  have h: "vm_open demo_video = None" "vm_start demo_video = None"
    "detect_scenes demo_video = Inr [(0, 48), (48, 120), (120, 200)]"
    by (simp_all add: demo_video_def)
  have s: "str_nat 48 = ''48''" "str_nat 0 = ''0''" "str_nat (Suc (Suc 0)) = ''2''"
    by (simp_all add: str_nat.simps digit_char_def)
  have f: "frame_at demo_video 48 = None" "frame_at demo_video 0 = Some [0]"
    "frame_at demo_video 120 = Some [120]" "capture_opens demo_video"
    "makedirs demo_video ''frames'' = None"
    by (simp_all add: demo_video_def makedirs_def)
  show ?thesis
    using extract_key_frames_skips_unreadable[OF h, of "''movie.mp4''" "''frames''"] h f s
    by (simp add: frame_name_def os_path_join_def)
qed

text \<open>
  C8. On the video whose scene detection raises, the function returns with the
  \<^verbatim>\<open>VideoManager\<close> still holding the video: \<^verbatim>\<open>video_manager.release()\<close> is reached on
  the path through the loop only.
\<close>

theorem extract_key_frames_leaves_video_manager_held:
  "extract_key_frames corrupt_video ''movie.mp4'' ''frames''
   = (Inr [], \<lparr>printed = [''Error during scene detection: could not decode''],
               vm_held = True, cap_held = False, dirs = [], written = []\<rparr>)"
  by (simp add: extract_key_frames_def corrupt_video_def py_print_def Let_def)

subsection \<open>A failed detection and the cells after it\<close>

lemma run_cells_no_frames:
  assumes "fst (extract_key_frames v video_path output_dir) = Inr []"
  shows "run_cells v svc sort_values video_path output_dir prompt
         = (case get_embedding svc prompt of
              Inl e \<Rightarrow> Inl e
            | Inr q \<Rightarrow> Inl (KeyError ''embedding''))"
  using assms
  by (simp add: run_cells_def build_df_frames_def search_frames_def pd_DataFrame_def
      split: sum.splits)

text \<open>
  C6 (as amended). If, with the \<^verbatim>\<open>VideoManager\<close> constructed, \<^verbatim>\<open>video_manager.start()\<close>
  or \<^verbatim>\<open>detect_scenes\<close> raises, the function prints the diagnostic with the exception's
  message and returns the empty list instead of raising. The annotation cell builds from
  it the table without rows and columns and raises nothing; the search cell, once the
  query is embedded, raises \<^verbatim>\<open>KeyError\<close> on that table.
\<close>

theorem extract_key_frames_detection_failure:
  assumes "vm_open v = None"
    and "vm_start v = Some e \<or> (vm_start v = None \<and> detect_scenes v = Inl e)"
  shows "fst (extract_key_frames v video_path output_dir) = Inr [] \<and>
         printed (snd (extract_key_frames v video_path output_dir))
           = [''Error during scene detection: '' @ message e] \<and>
         build_df_frames svc [] = Inr (pd_DataFrame []) \<and>
         (\<forall>q. get_embedding svc prompt = Inr q \<longrightarrow>
            run_cells v svc sort_values video_path output_dir prompt
              = Inl (KeyError ''embedding''))"
proof -
  have ret: "fst (extract_key_frames v video_path output_dir) = Inr []"
    using assms by (intro extract_key_frames_early(1)) auto
  have out: "printed (snd (extract_key_frames v video_path output_dir))
               = [''Error during scene detection: '' @ message e]"
    using assms by (auto simp: extract_key_frames_def py_print_def Let_def)
  have "build_df_frames svc [] = Inr (pd_DataFrame [])"
    by (simp add: build_df_frames_def)
  then show ?thesis
    using ret out run_cells_no_frames[OF ret, of svc sort_values prompt] by simp
qed

theorem extract_key_frames_detection_failure_witness:
  "vm_open (corrupt_video\<lparr>vm_start := Some (Failure ''cannot start'')\<rparr>) = None \<and>
   vm_start (corrupt_video\<lparr>vm_start := Some (Failure ''cannot start'')\<rparr>)
     = Some (Failure ''cannot start'') \<and>
   get_embedding demo_services ''a car'' = Inr [1, 0] \<and>
   extract_key_frames (corrupt_video\<lparr>vm_start := Some (Failure ''cannot start'')\<rparr>)
     ''movie.mp4'' ''frames''
   = (Inr [], \<lparr>printed = [''Error during scene detection: cannot start''],
               vm_held = True, cap_held = False, dirs = [], written = []\<rparr>) \<and>
   run_cells (corrupt_video\<lparr>vm_start := Some (Failure ''cannot start'')\<rparr>) demo_services
     stable_sort ''movie.mp4'' ''frames'' ''a car''
   = Inl (KeyError ''embedding'')"
proof -
  let ?v = "corrupt_video\<lparr>vm_start := Some (Failure ''cannot start'')\<rparr>"
  have h: "vm_open ?v = None"
    "vm_start ?v = Some (Failure ''cannot start'') \<or>
     (vm_start ?v = None \<and> detect_scenes ?v = Inl (Failure ''cannot start''))"
    by (simp_all add: corrupt_video_def)
  have run: "extract_key_frames ?v ''movie.mp4'' ''frames''
     = (Inr [], \<lparr>printed = [''Error during scene detection: cannot start''],
                 vm_held = True, cap_held = False, dirs = [], written = []\<rparr>)"
    by (simp add: extract_key_frames_def corrupt_video_def py_print_def Let_def)
  show ?thesis
    using extract_key_frames_detection_failure
      [OF h, of "''movie.mp4''" "''frames''" demo_services "''a car''" stable_sort]
      h(1) run
    by (simp add: demo_get_embedding corrupt_video_def)
qed

text \<open>
  On the video whose scene detection raises, the function returns the empty list, and
  the run of the cells ends in the search cell with \<^verbatim>\<open>KeyError\<close>: the zero scenes are
  not an outcome the cells after the extraction survive.
\<close>

theorem run_cells_detection_failure_raises:
  "detect_scenes corrupt_video = Inl (Failure ''could not decode'') \<and>
   fst (extract_key_frames corrupt_video ''movie.mp4'' ''frames'') = Inr [] \<and>
   run_cells corrupt_video demo_services stable_sort ''movie.mp4'' ''frames''
     ''Find images of Paul Walker, a blonde hair blue-eyed man, in a car.''
   = Inl (KeyError ''embedding'')"
proof -
  have ret: "fst (extract_key_frames corrupt_video ''movie.mp4'' ''frames'') = Inr []"
    by (simp add: extract_key_frames_def corrupt_video_def py_print_def Let_def)
  show ?thesis
    using ret run_cells_no_frames[OF ret, of demo_services stable_sort]
    by (simp add: demo_get_embedding corrupt_video_def)
qed

subsection \<open>The calls outside the \<open>try\<close>\<close>

text \<open>
  C10. On a file that the \<^verbatim>\<open>VideoManager\<close> constructor cannot open, the function
  returns no list: the constructor's exception leaves it. The same holds for the
  exception of \<^verbatim>\<open>os.makedirs\<close>, here on the empty directory name.
\<close>

theorem extract_key_frames_raises_outside_try:
  "extract_key_frames unopenable_video ''missing.mp4'' ''frames''
   = (Inl (OSError ''Video file(s) not found.''),
      \<lparr>printed = [], vm_held = False, cap_held = False, dirs = [], written = []\<rparr>) \<and>
   extract_key_frames demo_video ''movie.mp4'' []
   = (Inl (OSError ''[Errno 2] No such file or directory''),
      \<lparr>printed = [''Detected 3 scenes in video.''], vm_held = True, cap_held = False,
        dirs = [], written = []\<rparr>)"
proof -
  have "str_nat (Suc (Suc (Suc 0))) = ''3''"
    by (simp add: str_nat.simps digit_char_def)
  then show ?thesis
    by (simp add: extract_key_frames_def unopenable_video_def demo_video_def makedirs_def
        py_print_def Let_def)
qed

end
